theory Spec2Isabelle
  imports Main "HOL-Library.Sublist"
begin

section \<open>JavaScript helpers used by websocket-connection-manager.ts\<close>

text \<open>
  A JavaScript string is truthy iff it is non-empty, and \<open>undefined\<close> is falsy.
  An optional string (\<open>string | undefined\<close>) is a \<open>string option\<close>.
\<close>

definition truthy :: "string option \<Rightarrow> bool" where
  "truthy s = (case s of None \<Rightarrow> False | Some v \<Rightarrow> v \<noteq> [])"

text \<open>\<open>Array.prototype.findIndex\<close>: the first index whose element satisfies the predicate, -1 if none.\<close>

fun findIndex :: "('a \<Rightarrow> bool) \<Rightarrow> 'a list \<Rightarrow> int" where
  "findIndex P [] = - 1"
| "findIndex P (x # xs) =
     (if P x then 0
      else (let i = findIndex P xs in if i = - 1 then - 1 else i + 1))"

text \<open>
  \<open>Array.prototype.splice(start)\<close> with the delete count omitted: every element from
  \<open>start\<close> to the end is removed (a negative \<open>start\<close> counts from the end). The value
  is the array that remains.
\<close>

definition splice :: "int \<Rightarrow> 'a list \<Rightarrow> 'a list" where
  "splice start xs =
     (let len = int (length xs);
          s = (if start < 0 then max (len + start) 0 else min start len)
      in take (nat s) xs)"

text \<open>\<open>String(n)\<close> for a non-negative integer: its decimal digits.\<close>

fun String_of :: "nat \<Rightarrow> string" where
  "String_of n =
     (if n < 10 then [''0123456789'' ! n]
      else String_of (n div 10) @ [''0123456789'' ! (n mod 10)])"

declare String_of.simps [simp del]

text \<open>
  \<open>Math.round(ms / 1000)\<close> for a non-negative whole number of milliseconds:
  \<open>Math.round\<close> takes the nearest integer, a half going up.
\<close>

definition Math_round_div_1000 :: "nat \<Rightarrow> nat" where
  "Math_round_div_1000 ms = (ms + 500) div 1000"

section \<open>Client metadata (identity resolution)\<close>

datatype WebsocketClientType = browser | go_client | vs_code

datatype WebsocketAuthenticationLevel = Auth_user | Auth_session | Auth_anonymous

record ClientMetadata =
  id' :: string
  authLevel :: WebsocketAuthenticationLevel
  sessionId :: "string option"
  userId :: "string option"
  type' :: "WebsocketClientType option"

text \<open>The fields of the express request that this file reads.\<close>

record User =
  user_id :: string

record Session =
  session_id :: string

record Request =
  req_user :: "User option"
  req_session :: "Session option"
  req_user_agent :: "string option"

definition getClientType :: "Request \<Rightarrow> WebsocketClientType option" where
  "getClientType req =
     (let userAgent = req_user_agent req in
      if \<not> truthy userAgent then None
      else if prefix ''Go-http-client'' (the userAgent) then Some go_client
      else if prefix ''Mozilla'' (the userAgent) then Some browser
      else if prefix ''VS Code'' (the userAgent) then Some vs_code
      else None)"

text \<open>
  \<open>ClientMetadata.from\<close>: \<open>id\<close> and \<open>authLevel\<close> start as "anonymous" and are
  overwritten by the first truthy one of \<open>userId\<close> and \<open>sessionId\<close>.
\<close>

definition ClientMetadata_from ::
  "string option \<Rightarrow> string option \<Rightarrow> WebsocketClientType option \<Rightarrow> ClientMetadata" where
  "ClientMetadata_from uId sId ty =
     (let ia = (''anonymous'', Auth_anonymous);
          ia = (if truthy uId then (the uId, Auth_user)
                else if truthy sId then (''session-'' @ the sId, Auth_session)
                else ia)
      in \<lparr> id' = fst ia, authLevel = snd ia, sessionId = sId, userId = uId, type' = ty \<rparr>)"

definition ClientMetadata_fromRequest :: "Request \<Rightarrow> ClientMetadata" where
  "ClientMetadata_fromRequest req =
     (let user = req_user req;
          sId = map_option session_id (req_session req);
          ty = getClientType req
      in ClientMetadata_from (map_option user_id user) sId ty)"

section \<open>Client contexts and the connection manager\<close>

record GitpodServerImpl =
  uuid :: string

record WebsocketClientContext =
  clientMetadata :: ClientMetadata
  servers :: "GitpodServerImpl list"

definition new_WebsocketClientContext :: "ClientMetadata \<Rightarrow> WebsocketClientContext" where
  "new_WebsocketClientContext md = \<lparr> clientMetadata = md, servers = [] \<rparr>"

definition clientId :: "WebsocketClientContext \<Rightarrow> string" where
  "clientId c = id' (clientMetadata c)"

definition addEndpoint :: "GitpodServerImpl \<Rightarrow> WebsocketClientContext \<Rightarrow> WebsocketClientContext" where
  "addEndpoint server c = c\<lparr> servers := servers c @ [server] \<rparr>"

definition removeEndpoint :: "GitpodServerImpl \<Rightarrow> WebsocketClientContext \<Rightarrow> WebsocketClientContext" where
  "removeEndpoint server c =
     (let index = findIndex (\<lambda>s. uuid s = uuid server) (servers c) in
      if index \<noteq> - 1 then c\<lparr> servers := splice index (servers c) \<rparr> else c)"

definition hasNoEndpointsLeft :: "WebsocketClientContext \<Rightarrow> bool" where
  "hasNoEndpointsLeft c = (length (servers c) = 0)"

text \<open>
  Context objects live in a store and are referred to by their position in it: the
  registry and every close callback hold a reference to a context object, and two of
  them may hold the same one.
\<close>

type_synonym ctx_ref = nat

datatype event =
    EVENT_CONNECTION_CREATED GitpodServerImpl
  | EVENT_CONNECTION_CLOSED GitpodServerImpl
  | EVENT_CLIENT_CONTEXT_CREATED ctx_ref
  | EVENT_CLIENT_CONTEXT_CLOSED ctx_ref

record WebsocketConnectionManager =
  contexts :: "string \<rightharpoonup> ctx_ref"
  objects :: "WebsocketClientContext list"
  events :: "event list"

definition new_WebsocketConnectionManager :: WebsocketConnectionManager where
  "new_WebsocketConnectionManager = \<lparr> contexts = Map.empty, objects = [], events = [] \<rparr>"

definition emit :: "event \<Rightarrow> WebsocketConnectionManager \<Rightarrow> WebsocketConnectionManager" where
  "emit e m = m\<lparr> events := events m @ [e] \<rparr>"

definition getOrCreateClientContext ::
  "Request \<Rightarrow> WebsocketConnectionManager \<Rightarrow> ctx_ref \<times> WebsocketConnectionManager" where
  "getOrCreateClientContext expressReq m =
     (let metadata = ClientMetadata_fromRequest expressReq in
      case contexts m (id' metadata) of
        Some ctx \<Rightarrow> (ctx, m)
      | None \<Rightarrow>
          (let ctx = length (objects m);
               m1 = m\<lparr> objects := objects m @ [new_WebsocketClientContext metadata] \<rparr>;
               m2 = m1\<lparr> contexts := (contexts m1)(id' metadata \<mapsto> ctx) \<rparr>
           in (ctx, emit (EVENT_CLIENT_CONTEXT_CREATED ctx) m2)))"

text \<open>
  The callback that \<open>createProxyTarget\<close> registers with \<open>client.onDidCloseConnection\<close>
  closes over the context object and the server of its connection. Its calls
  \<open>gitpodServer.dispose()\<close> and \<open>increaseApiConnectionClosedCounter()\<close> do not touch the
  manager and are left out; a reference that \<open>createProxyTarget\<close> handed out is always
  inside the store, which only grows.
\<close>

record CloseCallback =
  cb_clientContext :: ctx_ref
  cb_gitpodServer :: GitpodServerImpl

definition onDidCloseConnection ::
  "CloseCallback \<Rightarrow> WebsocketConnectionManager \<Rightarrow> WebsocketConnectionManager" where
  "onDidCloseConnection cb m =
     (let r = cb_clientContext cb;
          gitpodServer = cb_gitpodServer cb;
          m1 = emit (EVENT_CONNECTION_CLOSED gitpodServer) m;
          clientContext = removeEndpoint gitpodServer (objects m1 ! r);
          m2 = m1\<lparr> objects := (objects m1)[r := clientContext] \<rparr>
      in if hasNoEndpointsLeft clientContext
         then emit (EVENT_CLIENT_CONTEXT_CLOSED r)
                (m2\<lparr> contexts := (contexts m2)(clientId clientContext := None) \<rparr>)
         else m2)"

text \<open>
  \<open>createProxyTarget\<close>, with the server that \<open>serverFactory()\<close> returns as an argument.
  It yields the close callback of the new connection and the manager's new state. The
  resource guard, the header fields and \<open>gitpodServer.initialize\<close> concern the server
  only and are left out, as is the proxy that touches the session.
\<close>

definition createProxyTarget ::
  "Request \<Rightarrow> GitpodServerImpl \<Rightarrow> WebsocketConnectionManager
     \<Rightarrow> CloseCallback \<times> WebsocketConnectionManager" where
  "createProxyTarget expressReq gitpodServer m =
     (let (clientContext, m1) = getOrCreateClientContext expressReq m;
          cb = \<lparr> cb_clientContext = clientContext, cb_gitpodServer = gitpodServer \<rparr>;
          m2 = m1\<lparr> objects := (objects m1)[clientContext := addEndpoint gitpodServer (objects m1 ! clientContext)] \<rparr>
      in (cb, emit (EVENT_CONNECTION_CREATED gitpodServer) m2))"

section \<open>The per-call pipeline (GitpodJsonRpcProxyFactory.onRequest)\<close>

datatype js_value =
    JSUndefined
  | JSNumber int
  | JSString string
  | JSObject "(string \<times> js_value) list"

record ResponseError =
  code :: int
  message :: string
  data :: js_value

text \<open>
  What the rate limiter rejects with when the quota is used up: the time until the
  next point is available, a non-negative whole number of milliseconds.
\<close>

record RateLimiterRes =
  msBeforeNext :: nat

text \<open>
  The values that a collaborator can throw (or reject with): a \<open>ResponseError\<close>, which
  is also an \<open>Error\<close>; any other \<open>Error\<close>, given by its message; and the rate limiter's
  rejection object, which is not an \<open>Error\<close>.
\<close>

datatype thrown =
    Thrown_ResponseError ResponseError
  | Thrown_Error string
  | Thrown_RateLimiterRes RateLimiterRes

fun instanceof_Error :: "thrown \<Rightarrow> bool" where
  "instanceof_Error (Thrown_ResponseError e) = True"
| "instanceof_Error (Thrown_Error msg) = True"
| "instanceof_Error (Thrown_RateLimiterRes r) = False"

fun instanceof_ResponseError :: "thrown \<Rightarrow> bool" where
  "instanceof_ResponseError (Thrown_ResponseError e) = True"
| "instanceof_ResponseError (Thrown_Error msg) = False"
| "instanceof_ResponseError (Thrown_RateLimiterRes r) = False"

fun thrown_msBeforeNext :: "thrown \<Rightarrow> nat" where
  "thrown_msBeforeNext (Thrown_RateLimiterRes r) = msBeforeNext r"
| "thrown_msBeforeNext (Thrown_ResponseError e) = 0"
| "thrown_msBeforeNext (Thrown_Error msg) = 0"

text \<open>
  The two codes of \<open>ErrorCodes\<close> (gitpod-protocol) that the pipeline uses; their values
  are a parameter of the model.
\<close>

record ErrorCodes =
  TOO_MANY_REQUESTS :: int
  PERMISSION_DENIED :: int

text \<open>
  The consumed interfaces. \<open>consume\<close> resolves (\<open>None\<close>) or rejects with a thrown value;
  a method of the target returns a value (\<open>Inr\<close>) or throws (\<open>Inl\<close>).
\<close>

record RateLimiter =
  user :: string
  consume :: "string \<Rightarrow> thrown option"

record FunctionAccessGuard =
  canAccess :: "string \<Rightarrow> bool"

type_synonym target = "string \<Rightarrow> js_value list \<Rightarrow> thrown + js_value"

text \<open>
  \<open>createRateLimiter\<close>: the limiter of a connection hands every call to the one
  \<open>UserRateLimiter\<close> instance of the process, with the client id as the key. That
  instance is the parameter \<open>instance\<close>.
\<close>

definition createRateLimiter ::
  "(string \<Rightarrow> string \<Rightarrow> thrown option) \<Rightarrow> string \<Rightarrow> RateLimiter" where
  "createRateLimiter instance cId =
     \<lparr> user = cId, consume = (\<lambda>method. instance cId method) \<rparr>"

text \<open>Everything a call does to its collaborators, in the order it happens.\<close>

datatype effect =
    increaseApiCallUserCounter string string
  | TraceContext_childContext string
  | traceClientMetadata ClientMetadata
  | TraceContext_setOWI "string option" "string option"
  | TraceContext_setJsonRPCMetadata string
  | rateLimiter_consume string
  | log_error string thrown
  | log_warn string thrown
  | log_info string ResponseError
  | accessGuard_canAccess string bool
  | target_call string "js_value list"
  | increaseApiCallCounter string int
  | TraceContext_setError thrown
  | TraceContext_setJsonRPCError string ResponseError
  | span_finish

text \<open>
  The value of \<open>String(Math.round(rlRejected.msBeforeNext / 1000)) || 1\<close>: the left
  operand of \<open>||\<close> when it is truthy (a non-empty string), else the number 1.
\<close>

definition Retry_After :: "nat \<Rightarrow> js_value" where
  "Retry_After ms =
     (let s = String_of (Math_round_div_1000 ms) in
      if s \<noteq> [] then JSString s else JSNumber 1)"

text \<open>
  The inner \<open>try\<close>/\<open>catch\<close> around \<open>rateLimiter.consume\<close>: its effects and what it
  throws. \<open>uId\<close> is the context of the log entries. \<open>msBeforeNext\<close> is read only from a
  rejection that is not an \<open>Error\<close>.
\<close>

definition rate_limiting ::
  "ErrorCodes \<Rightarrow> RateLimiter \<Rightarrow> string option \<Rightarrow> string \<Rightarrow> effect list \<times> thrown option" where
  "rate_limiting ec rateLimiter uId method =
     (case consume rateLimiter method of
        None \<Rightarrow> ([rateLimiter_consume method], None)
      | Some rlRejected \<Rightarrow>
          if instanceof_Error rlRejected
          then ([rateLimiter_consume method,
                 log_error ''Unexpected error in the rate limiter'' rlRejected],
                Some rlRejected)
          else ([rateLimiter_consume method,
                 log_warn ''Rate limiter prevents accessing method due to too many requests.'' rlRejected],
                Some (Thrown_ResponseError
                  \<lparr> code = TOO_MANY_REQUESTS ec, message = ''too many requests'',
                    data = JSObject [(''Retry-After'', Retry_After (thrown_msBeforeNext rlRejected))] \<rparr>)))"

text \<open>The body of the outer \<open>try\<close>.\<close>

definition try_block ::
  "ErrorCodes \<Rightarrow> FunctionAccessGuard \<Rightarrow> RateLimiter \<Rightarrow> ClientMetadata \<Rightarrow> target
     \<Rightarrow> string \<Rightarrow> js_value list \<Rightarrow> effect list \<times> (thrown + js_value)" where
  "try_block ec accessGuard rateLimiter md tgt method args =
     (let tracing = [traceClientMetadata md,
                     TraceContext_setOWI (userId md) (sessionId md),
                     TraceContext_setJsonRPCMetadata method];
          (rl_effects, rl_thrown) = rate_limiting ec rateLimiter (userId md) method
      in case rl_thrown of
           Some e \<Rightarrow> (tracing @ rl_effects, Inl e)
         | None \<Rightarrow>
             if \<not> canAccess accessGuard method
             then (tracing @ rl_effects @ [accessGuard_canAccess method False],
                   Inl (Thrown_ResponseError
                     \<lparr> code = PERMISSION_DENIED ec,
                       message = ''Request '' @ method @ '' is not allowed'',
                       data = JSUndefined \<rparr>))
             else (case tgt method args of
                     Inl e \<Rightarrow>
                       (tracing @ rl_effects @ [accessGuard_canAccess method True, target_call method args],
                        Inl e)
                   | Inr result \<Rightarrow>
                       (tracing @ rl_effects @ [accessGuard_canAccess method True, target_call method args,
                          increaseApiCallCounter method 200],
                        Inr result)))"

text \<open>The outer \<open>catch\<close> clause: its effects; it ends with \<open>throw e\<close>.\<close>

definition catch_block :: "string \<Rightarrow> thrown \<Rightarrow> effect list \<times> thrown" where
  "catch_block method e =
     (case e of
        Thrown_ResponseError re \<Rightarrow>
          ([increaseApiCallCounter method (code re),
            TraceContext_setJsonRPCError method re,
            log_info method re], e)
      | _ \<Rightarrow>
          (let err = \<lparr> code = 500, message = ''internal server error'', data = JSUndefined \<rparr> in
           ([TraceContext_setError e,
             increaseApiCallCounter method (code err),
             TraceContext_setJsonRPCError method err,
             log_error (''Request '' @ method @ '' failed with internal server error'') e], e)))"

text \<open>
  \<open>onRequest\<close>: the effects of the call and what the caller gets, a thrown value
  (\<open>Inl\<close>) or the result (\<open>Inr\<close>).
\<close>

definition onRequest ::
  "ErrorCodes \<Rightarrow> FunctionAccessGuard \<Rightarrow> RateLimiter \<Rightarrow> ClientMetadata \<Rightarrow> target
     \<Rightarrow> string \<Rightarrow> js_value list \<Rightarrow> effect list \<times> (thrown + js_value)" where
  "onRequest ec accessGuard rateLimiter md tgt method args =
     (let counter = (if \<not> prefix ''session-'' (user rateLimiter)
                     then [increaseApiCallUserCounter method (user rateLimiter)]
                     else [increaseApiCallUserCounter method ''anonymous'']);
          ctx = [TraceContext_childContext method];
          (try_effects, outcome) = try_block ec accessGuard rateLimiter md tgt method args
      in case outcome of
           Inr result \<Rightarrow> (counter @ ctx @ try_effects @ [span_finish], Inr result)
         | Inl e \<Rightarrow>
             (let (catch_effects, rethrown) = catch_block method e
              in (counter @ ctx @ try_effects @ catch_effects @ [span_finish], Inl rethrown)))"

text \<open>Whether a call reached the target, and whether it consulted the access guard.\<close>

fun is_target_call :: "effect \<Rightarrow> bool" where
  "is_target_call (target_call m a) = True"
| "is_target_call _ = False"

fun is_canAccess :: "effect \<Rightarrow> bool" where
  "is_canAccess (accessGuard_canAccess m b) = True"
| "is_canAccess _ = False"

text \<open>The two effects that open and close the span of a call.\<close>

definition span_event :: "string \<Rightarrow> effect \<Rightarrow> bool" where
  "span_event method e = (e = span_finish \<or> e = TraceContext_childContext method)"

section \<open>Concrete clients, servers and collaborators\<close>

definition u1_req :: Request where
  "u1_req = \<lparr> req_user = Some \<lparr> user_id = ''u1'' \<rparr>, req_session = None, req_user_agent = None \<rparr>"

definition u1_metadata :: ClientMetadata where
  "u1_metadata =
     \<lparr> id' = ''u1'', authLevel = Auth_user, sessionId = None, userId = Some ''u1'', type' = None \<rparr>"

definition anonymous_browser :: Request where
  "anonymous_browser =
     \<lparr> req_user = None, req_session = None, req_user_agent = Some ''Mozilla/5.0'' \<rparr>"

definition anonymous_go :: Request where
  "anonymous_go =
     \<lparr> req_user = None, req_session = None, req_user_agent = Some ''Go-http-client/1.1'' \<rparr>"

definition server_A :: GitpodServerImpl where
  "server_A = \<lparr> uuid = ''A'' \<rparr>"

definition server_B :: GitpodServerImpl where
  "server_B = \<lparr> uuid = ''B'' \<rparr>"

definition server_C :: GitpodServerImpl where
  "server_C = \<lparr> uuid = ''C'' \<rparr>"

definition callback :: "ctx_ref \<Rightarrow> GitpodServerImpl \<Rightarrow> CloseCallback" where
  "callback r s = \<lparr> cb_clientContext = r, cb_gitpodServer = s \<rparr>"

text \<open>The states of the manager while \<open>u1\<close> opens A and B, closes A, and opens C.\<close>

definition after_open_A :: WebsocketConnectionManager where
  "after_open_A =
     \<lparr> contexts = [''u1'' \<mapsto> 0],
       objects = [\<lparr> clientMetadata = u1_metadata, servers = [server_A] \<rparr>],
       events = [EVENT_CLIENT_CONTEXT_CREATED 0, EVENT_CONNECTION_CREATED server_A] \<rparr>"

definition after_open_B :: WebsocketConnectionManager where
  "after_open_B =
     \<lparr> contexts = [''u1'' \<mapsto> 0],
       objects = [\<lparr> clientMetadata = u1_metadata, servers = [server_A, server_B] \<rparr>],
       events = [EVENT_CLIENT_CONTEXT_CREATED 0, EVENT_CONNECTION_CREATED server_A,
                 EVENT_CONNECTION_CREATED server_B] \<rparr>"

definition after_close_A :: WebsocketConnectionManager where
  "after_close_A =
     \<lparr> contexts = Map.empty,
       objects = [\<lparr> clientMetadata = u1_metadata, servers = [] \<rparr>],
       events = [EVENT_CLIENT_CONTEXT_CREATED 0, EVENT_CONNECTION_CREATED server_A,
                 EVENT_CONNECTION_CREATED server_B, EVENT_CONNECTION_CLOSED server_A,
                 EVENT_CLIENT_CONTEXT_CLOSED 0] \<rparr>"

definition after_open_C :: WebsocketConnectionManager where
  "after_open_C =
     \<lparr> contexts = [''u1'' \<mapsto> 1],
       objects = [\<lparr> clientMetadata = u1_metadata, servers = [] \<rparr>,
                  \<lparr> clientMetadata = u1_metadata, servers = [server_C] \<rparr>],
       events = [EVENT_CLIENT_CONTEXT_CREATED 0, EVENT_CONNECTION_CREATED server_A,
                 EVENT_CONNECTION_CREATED server_B, EVENT_CONNECTION_CLOSED server_A,
                 EVENT_CLIENT_CONTEXT_CLOSED 0, EVENT_CLIENT_CONTEXT_CREATED 1,
                 EVENT_CONNECTION_CREATED server_C] \<rparr>"

text \<open>
  The states of the manager while an anonymous browser opens A, an anonymous Go client
  opens B, A closes, and an anonymous browser opens C.
\<close>

definition browser_metadata :: ClientMetadata where
  "browser_metadata =
     \<lparr> id' = ''anonymous'', authLevel = Auth_anonymous, sessionId = None, userId = None,
       type' = Some browser \<rparr>"

definition anon_after_open_A :: WebsocketConnectionManager where
  "anon_after_open_A =
     \<lparr> contexts = [''anonymous'' \<mapsto> 0],
       objects = [\<lparr> clientMetadata = browser_metadata, servers = [server_A] \<rparr>],
       events = [EVENT_CLIENT_CONTEXT_CREATED 0, EVENT_CONNECTION_CREATED server_A] \<rparr>"

definition anon_after_open_B :: WebsocketConnectionManager where
  "anon_after_open_B =
     \<lparr> contexts = [''anonymous'' \<mapsto> 0],
       objects = [\<lparr> clientMetadata = browser_metadata, servers = [server_A, server_B] \<rparr>],
       events = [EVENT_CLIENT_CONTEXT_CREATED 0, EVENT_CONNECTION_CREATED server_A,
                 EVENT_CONNECTION_CREATED server_B] \<rparr>"

definition anon_after_close_A :: WebsocketConnectionManager where
  "anon_after_close_A =
     \<lparr> contexts = Map.empty,
       objects = [\<lparr> clientMetadata = browser_metadata, servers = [] \<rparr>],
       events = [EVENT_CLIENT_CONTEXT_CREATED 0, EVENT_CONNECTION_CREATED server_A,
                 EVENT_CONNECTION_CREATED server_B, EVENT_CONNECTION_CLOSED server_A,
                 EVENT_CLIENT_CONTEXT_CLOSED 0] \<rparr>"

definition anon_after_open_C :: WebsocketConnectionManager where
  "anon_after_open_C =
     \<lparr> contexts = [''anonymous'' \<mapsto> 1],
       objects = [\<lparr> clientMetadata = browser_metadata, servers = [] \<rparr>,
                  \<lparr> clientMetadata = browser_metadata, servers = [server_C] \<rparr>],
       events = [EVENT_CLIENT_CONTEXT_CREATED 0, EVENT_CONNECTION_CREATED server_A,
                 EVENT_CONNECTION_CREATED server_B, EVENT_CONNECTION_CLOSED server_A,
                 EVENT_CLIENT_CONTEXT_CLOSED 0, EVENT_CLIENT_CONTEXT_CREATED 1,
                 EVENT_CONNECTION_CREATED server_C] \<rparr>"

definition codes :: ErrorCodes where
  "codes = \<lparr> TOO_MANY_REQUESTS = 429, PERMISSION_DENIED = 403 \<rparr>"

definition allow_all :: FunctionAccessGuard where
  "allow_all = \<lparr> canAccess = (\<lambda>method. True) \<rparr>"

definition deny_all :: FunctionAccessGuard where
  "deny_all = \<lparr> canAccess = (\<lambda>method. False) \<rparr>"

definition unlimited :: "string \<Rightarrow> string \<Rightarrow> thrown option" where
  "unlimited cId method = None"

definition exhausted :: "nat \<Rightarrow> string \<Rightarrow> string \<Rightarrow> thrown option" where
  "exhausted ms cId method = Some (Thrown_RateLimiterRes \<lparr> msBeforeNext = ms \<rparr>)"

definition broken_limiter :: "string \<Rightarrow> string \<Rightarrow> thrown option" where
  "broken_limiter cId method = Some (Thrown_Error ''connect ECONNREFUSED 10.0.0.7:6379'')"

definition faulty_target :: target where
  "faulty_target method args = Inl (Thrown_Error ''connect ECONNREFUSED 10.0.0.5:3306'')"

definition echo_target :: target where
  "echo_target method args = Inr (JSString method)"

section \<open>Identity resolution\<close>

text \<open>
  Claim C6, as amended. \<open>ClientMetadata.from\<close> is a total function of its arguments, and
  its tests are JavaScript truthiness tests: a user id that is present and non-empty
  gives \<open>id = userId\<close> and level "user"; otherwise (the user id is absent or the empty
  string) a session id that is present and non-empty gives \<open>id = "session-" + sessionId\<close>
  and level "session"; otherwise the result is "anonymous" with level "anonymous".
\<close>

theorem ClientMetadata_from_resolution:
  "(\<forall>u. uId = Some u \<and> u \<noteq> [] \<longrightarrow>
       id' (ClientMetadata_from uId sId ty) = u
       \<and> authLevel (ClientMetadata_from uId sId ty) = Auth_user)
   \<and> (\<forall>s. (uId = None \<or> uId = Some []) \<and> sId = Some s \<and> s \<noteq> [] \<longrightarrow>
       id' (ClientMetadata_from uId sId ty) = ''session-'' @ s
       \<and> authLevel (ClientMetadata_from uId sId ty) = Auth_session)
   \<and> ((uId = None \<or> uId = Some []) \<and> (sId = None \<or> sId = Some []) \<longrightarrow>
       id' (ClientMetadata_from uId sId ty) = ''anonymous''
       \<and> authLevel (ClientMetadata_from uId sId ty) = Auth_anonymous)"
  by (auto simp: ClientMetadata_from_def truthy_def split: option.splits)

theorem ClientMetadata_from_resolution_witness:
  "id' (ClientMetadata_from (Some ''u1'') (Some ''s1'') None) = ''u1''
   \<and> authLevel (ClientMetadata_from (Some ''u1'') (Some ''s1'') None) = Auth_user
   \<and> id' (ClientMetadata_from (Some []) (Some ''s1'') None) = ''session-s1''
   \<and> authLevel (ClientMetadata_from (Some []) (Some ''s1'') None) = Auth_session
   \<and> id' (ClientMetadata_from None (Some []) None) = ''anonymous''
   \<and> authLevel (ClientMetadata_from None (Some []) None) = Auth_anonymous"
  using ClientMetadata_from_resolution [of "Some ''u1''" "Some ''s1''" None]
    ClientMetadata_from_resolution [of "Some []" "Some ''s1''" None]
    ClientMetadata_from_resolution [of None "Some []" None]
  by simp

text \<open>
  Claim C6 as it is written fails where the user id is present and is the empty string:
  the result is not \<open>{id: userId, authLevel: "user"}\<close>.
\<close>

theorem empty_user_id_counterexample:
  "\<not> (id' (ClientMetadata_from (Some []) None None) = []
      \<and> authLevel (ClientMetadata_from (Some []) None None) = Auth_user)"
  by (simp add: ClientMetadata_from_def truthy_def)

lemma fromRequest_u1: "ClientMetadata_fromRequest u1_req = u1_metadata"
  by (simp add: ClientMetadata_fromRequest_def ClientMetadata_from_def getClientType_def
      truthy_def u1_req_def u1_metadata_def)

lemma id_u1: "id' u1_metadata = ''u1''"
  by (simp add: u1_metadata_def)

lemma fromRequest_anonymous:
  "req_user r = None \<Longrightarrow> req_session r = None \<Longrightarrow>
     id' (ClientMetadata_fromRequest r) = ''anonymous''"
  by (simp add: ClientMetadata_fromRequest_def ClientMetadata_from_def truthy_def)

section \<open>Endpoints of a client context\<close>

lemma findIndex_ge: "- 1 \<le> findIndex P xs"
  by (induction xs) (auto simp: Let_def)

lemma findIndex_none: "findIndex P xs = - 1 \<longleftrightarrow> filter P xs = []"
proof (induction xs)
  case Nil
  show ?case by simp
next
  case (Cons x xs)
  have "- 1 \<le> findIndex P xs" by (rule findIndex_ge)
  with Cons show ?case by (auto simp: Let_def)
qed

lemma findIndex_takeWhile:
  "findIndex P xs \<noteq> - 1 \<Longrightarrow> findIndex P xs = int (length (takeWhile (\<lambda>x. \<not> P x) xs))"
proof (induction xs)
  case Nil
  then show ?case by simp
next
  case (Cons x xs)
  then show ?case by (auto simp: Let_def split: if_splits)
qed

text \<open>
  What \<open>removeEndpoint\<close> leaves of the list in general: the endpoints before the first
  one with the uuid of the server.
\<close>

lemma removeEndpoint_truncates:
  "servers (removeEndpoint server c) = takeWhile (\<lambda>s. uuid s \<noteq> uuid server) (servers c)"
proof (cases "findIndex (\<lambda>s. uuid s = uuid server) (servers c) = - 1")
  case True
  then have "filter (\<lambda>s. uuid s = uuid server) (servers c) = []"
    by (simp add: findIndex_none)
  then have "\<forall>s \<in> set (servers c). uuid s \<noteq> uuid server"
    by (simp add: filter_empty_conv)
  then have tw: "takeWhile (\<lambda>s. uuid s \<noteq> uuid server) (servers c) = servers c"
    by (rule takeWhile_eq_all_conv [THEN iffD2])
  have r: "removeEndpoint server c = c"
    using True by (simp add: removeEndpoint_def)
  show ?thesis by (simp only: r tw)
next
  case False
  from findIndex_takeWhile [OF False] False show ?thesis
    by (simp add: removeEndpoint_def splice_def Let_def takeWhile_eq_take [symmetric] min_def
        length_takeWhile_le)
qed

text \<open>
  Claim C9. \<open>removeEndpoint\<close> with a server whose uuid is the uuid of no endpoint of
  the context leaves the context, and so its list of endpoints, as it was.
\<close>

theorem removeEndpoint_unknown_uuid:
  assumes "\<forall>s \<in> set (servers c). uuid s \<noteq> uuid server"
  shows "removeEndpoint server c = c"
proof -
  have "filter (\<lambda>s. uuid s = uuid server) (servers c) = []"
    using assms by (simp add: filter_empty_conv)
  then have "findIndex (\<lambda>s. uuid s = uuid server) (servers c) = - 1"
    by (simp add: findIndex_none)
  then show ?thesis by (simp add: removeEndpoint_def)
qed

theorem removeEndpoint_unknown_uuid_witness:
  "uuid server_A \<noteq> uuid server_C \<and> uuid server_B \<noteq> uuid server_C
   \<and> servers (removeEndpoint server_C
        \<lparr> clientMetadata = u1_metadata, servers = [server_A, server_B] \<rparr>) = [server_A, server_B]"
proof -
  have h: "\<forall>s \<in> set (servers \<lparr> clientMetadata = u1_metadata, servers = [server_A, server_B] \<rparr>).
      uuid s \<noteq> uuid server_C"
    by (simp add: server_A_def server_B_def server_C_def)
  from removeEndpoint_unknown_uuid [OF h] h show ?thesis by simp
qed

section \<open>The registry over a sequence of opens and closes\<close>

lemma open_new:
  "contexts m ''u1'' = None \<Longrightarrow>
   createProxyTarget u1_req s m =
     (callback (length (objects m)) s,
      \<lparr> contexts = (contexts m)(''u1'' \<mapsto> length (objects m)),
        objects = objects m @ [\<lparr> clientMetadata = u1_metadata, servers = [s] \<rparr>],
        events = events m @ [EVENT_CLIENT_CONTEXT_CREATED (length (objects m)),
                             EVENT_CONNECTION_CREATED s] \<rparr>)"
  by (simp add: createProxyTarget_def getOrCreateClientContext_def fromRequest_u1 id_u1 emit_def
      addEndpoint_def new_WebsocketClientContext_def callback_def Let_def)

lemma open_existing:
  "contexts m ''u1'' = Some r \<Longrightarrow>
   createProxyTarget u1_req s m =
     (callback r s,
      \<lparr> contexts = contexts m,
        objects = (objects m)[r := addEndpoint s (objects m ! r)],
        events = events m @ [EVENT_CONNECTION_CREATED s] \<rparr>)"
  by (simp add: createProxyTarget_def getOrCreateClientContext_def fromRequest_u1 id_u1 emit_def
      callback_def)

lemma open_A:
  "createProxyTarget u1_req server_A new_WebsocketConnectionManager =
     (callback 0 server_A, after_open_A)"
  by (simp add: open_new new_WebsocketConnectionManager_def after_open_A_def)

lemma open_B:
  "createProxyTarget u1_req server_B after_open_A = (callback 0 server_B, after_open_B)"
  by (simp add: open_existing [where r = 0] after_open_A_def after_open_B_def addEndpoint_def)

lemma close_A:
  "onDidCloseConnection (callback 0 server_A) after_open_B = after_close_A"
  by (simp add: onDidCloseConnection_def callback_def after_open_B_def after_close_A_def emit_def
      removeEndpoint_def splice_def hasNoEndpointsLeft_def clientId_def id_u1
      server_A_def server_B_def Let_def)

lemma close_B_after_A:
  "onDidCloseConnection (callback 0 server_B) after_close_A =
     after_close_A\<lparr> events := events after_close_A @
       [EVENT_CONNECTION_CLOSED server_B, EVENT_CLIENT_CONTEXT_CLOSED 0] \<rparr>"
  by (simp add: onDidCloseConnection_def callback_def after_close_A_def emit_def
      removeEndpoint_def splice_def hasNoEndpointsLeft_def clientId_def id_u1
      server_B_def Let_def)

lemma open_C:
  "createProxyTarget u1_req server_C after_close_A = (callback 1 server_C, after_open_C)"
  by (simp add: open_new after_close_A_def after_open_C_def)

lemma close_B_after_C:
  "onDidCloseConnection (callback 0 server_B) after_open_C =
     after_open_C\<lparr> contexts := Map.empty,
       events := events after_open_C @
         [EVENT_CONNECTION_CLOSED server_B, EVENT_CLIENT_CONTEXT_CLOSED 0] \<rparr>"
  by (simp add: onDidCloseConnection_def callback_def after_open_C_def emit_def
      removeEndpoint_def splice_def hasNoEndpointsLeft_def clientId_def id_u1
      server_B_def Let_def)

text \<open>
  Claim C1, on the code. Identity \<open>u1\<close> opens A and then B: the registry holds one
  context for \<open>u1\<close>, with the endpoints A and B. Closing A then removes A and B from the
  context (\<open>splice(index)\<close> removes every element from \<open>index\<close> on), the context is
  deleted from the registry and "context closed" is emitted while B is still open;
  closing B emits "context closed" a second time.
\<close>

theorem closing_first_of_two_removes_both:
  "(let (cbA, m1) = createProxyTarget u1_req server_A new_WebsocketConnectionManager;
        (cbB, m2) = createProxyTarget u1_req server_B m1;
        m3 = onDidCloseConnection cbA m2;
        m4 = onDidCloseConnection cbB m3
    in contexts m2 ''u1'' = Some 0
       \<and> length (objects m2) = 1
       \<and> servers (objects m2 ! 0) = [server_A, server_B]
       \<and> servers (objects m3 ! 0) = []
       \<and> contexts m3 ''u1'' = None
       \<and> filter (\<lambda>e. e = EVENT_CLIENT_CONTEXT_CLOSED 0) (events m3) =
           [EVENT_CLIENT_CONTEXT_CLOSED 0]
       \<and> filter (\<lambda>e. e = EVENT_CLIENT_CONTEXT_CLOSED 0) (events m4) =
           [EVENT_CLIENT_CONTEXT_CLOSED 0, EVENT_CLIENT_CONTEXT_CLOSED 0])"
  by (simp add: open_A open_B close_A close_B_after_A)
    (simp add: after_open_B_def after_close_A_def)

text \<open>
  Claim C7, on the code. Identity \<open>u1\<close> opens A and B, closes A, opens C and closes B.
  Closing A empties the context of A and B and deletes it, so C gets a new context
  object; closing B then finds the old context empty and deletes the entry of \<open>u1\<close>,
  which is the new context. The registry holds no context for \<open>u1\<close> while the context
  of C still has the endpoint C registered.
\<close>

theorem registry_loses_live_context:
  "(let (cbA, m1) = createProxyTarget u1_req server_A new_WebsocketConnectionManager;
        (cbB, m2) = createProxyTarget u1_req server_B m1;
        m3 = onDidCloseConnection cbA m2;
        (cbC, m4) = createProxyTarget u1_req server_C m3;
        m5 = onDidCloseConnection cbB m4
    in contexts m3 ''u1'' = None
       \<and> contexts m4 ''u1'' = Some 1
       \<and> cb_clientContext cbC = 1
       \<and> contexts m5 ''u1'' = None
       \<and> servers (objects m5 ! 1) = [server_C])"
  by (simp add: open_A open_B close_A open_C close_B_after_C)
    (simp add: after_close_A_def after_open_C_def callback_def)

section \<open>Anonymous connections\<close>

lemma createProxyTarget_contexts:
  "contexts (snd (createProxyTarget r s m)) = contexts (snd (getOrCreateClientContext r m))
   \<and> cb_clientContext (fst (createProxyTarget r s m)) = fst (getOrCreateClientContext r m)"
  by (cases "getOrCreateClientContext r m") (simp add: createProxyTarget_def emit_def Let_def)

lemma getOrCreate_registered:
  "contexts (snd (getOrCreateClientContext r m)) (id' (ClientMetadata_fromRequest r)) =
     Some (fst (getOrCreateClientContext r m))"
  by (cases "contexts m (id' (ClientMetadata_fromRequest r))")
    (simp_all add: getOrCreateClientContext_def emit_def Let_def)

lemma getOrCreate_existing:
  "contexts m (id' (ClientMetadata_fromRequest r)) = Some c \<Longrightarrow>
     getOrCreateClientContext r m = (c, m)"
  by (simp add: getOrCreateClientContext_def)

lemma same_id_same_context:
  assumes "id' (ClientMetadata_fromRequest r2) = id' (ClientMetadata_fromRequest r1)"
  shows "cb_clientContext (fst (createProxyTarget r2 s2 (snd (createProxyTarget r1 s1 m)))) =
           cb_clientContext (fst (createProxyTarget r1 s1 m))
       \<and> contexts (snd (createProxyTarget r2 s2 (snd (createProxyTarget r1 s1 m)))) =
           contexts (snd (createProxyTarget r1 s1 m))
       \<and> contexts (snd (createProxyTarget r1 s1 m)) (id' (ClientMetadata_fromRequest r1)) =
           Some (cb_clientContext (fst (createProxyTarget r1 s1 m)))"
proof -
  let ?m1 = "snd (createProxyTarget r1 s1 m)"
  let ?c1 = "cb_clientContext (fst (createProxyTarget r1 s1 m))"
  have reg: "contexts ?m1 (id' (ClientMetadata_fromRequest r1)) = Some ?c1"
    by (simp add: createProxyTarget_contexts getOrCreate_registered)
  then have "getOrCreateClientContext r2 ?m1 = (?c1, ?m1)"
    using assms by (simp add: getOrCreate_existing)
  then show ?thesis
    using reg createProxyTarget_contexts [of r2 s2 ?m1] by simp
qed

text \<open>
  What holds of anonymous connections whatever the state of the manager. Two
  connections with neither a user nor a session, whatever their client type, both
  resolve to the id "anonymous". When the second opens directly after the first, it
  gets the context object of the first, which is the registry's entry for "anonymous".
  Their rate limiters, created from the id by \<open>createRateLimiter\<close>, are equal: the key
  is "anonymous" and \<open>consume\<close> asks the one limiter of the process under that key.
\<close>

lemma anonymous_open_after_open:
  assumes "req_user r1 = None" and "req_session r1 = None"
    and "req_user r2 = None" and "req_session r2 = None"
  shows "id' (ClientMetadata_fromRequest r1) = ''anonymous''
     \<and> id' (ClientMetadata_fromRequest r2) = ''anonymous''
     \<and> cb_clientContext (fst (createProxyTarget r2 s2 (snd (createProxyTarget r1 s1 m)))) =
           cb_clientContext (fst (createProxyTarget r1 s1 m))
     \<and> contexts (snd (createProxyTarget r2 s2 (snd (createProxyTarget r1 s1 m)))) ''anonymous'' =
           Some (cb_clientContext (fst (createProxyTarget r1 s1 m)))
     \<and> createRateLimiter inst (id' (ClientMetadata_fromRequest r1)) =
         createRateLimiter inst (id' (ClientMetadata_fromRequest r2))
     \<and> user (createRateLimiter inst (id' (ClientMetadata_fromRequest r1))) = ''anonymous''
     \<and> consume (createRateLimiter inst (id' (ClientMetadata_fromRequest r2))) method =
         inst ''anonymous'' method"
proof -
  have a1: "id' (ClientMetadata_fromRequest r1) = ''anonymous''"
    using assms by (simp add: fromRequest_anonymous)
  have a2: "id' (ClientMetadata_fromRequest r2) = ''anonymous''"
    using assms by (simp add: fromRequest_anonymous)
  from a1 a2 have "id' (ClientMetadata_fromRequest r2) = id' (ClientMetadata_fromRequest r1)"
    by simp
  from same_id_same_context [OF this, of s2 s1 m] a1 a2 show ?thesis
    by (simp add: createRateLimiter_def)
qed

lemma anonymous_open_after_open_example:
  "req_user anonymous_browser = None \<and> req_session anonymous_browser = None
   \<and> req_user anonymous_go = None \<and> req_session anonymous_go = None
   \<and> type' (ClientMetadata_fromRequest anonymous_browser) \<noteq>
       type' (ClientMetadata_fromRequest anonymous_go)
   \<and> cb_clientContext (fst (createProxyTarget anonymous_go server_B
        (snd (createProxyTarget anonymous_browser server_A new_WebsocketConnectionManager)))) =
      cb_clientContext (fst (createProxyTarget anonymous_browser server_A
        new_WebsocketConnectionManager))
   \<and> user (createRateLimiter unlimited (id' (ClientMetadata_fromRequest anonymous_browser))) =
       ''anonymous''
   \<and> user (createRateLimiter unlimited (id' (ClientMetadata_fromRequest anonymous_go))) =
       ''anonymous''"
proof -
  have h: "req_user anonymous_browser = None" "req_session anonymous_browser = None"
     "req_user anonymous_go = None" "req_session anonymous_go = None"
    by (simp_all add: anonymous_browser_def anonymous_go_def)
  have t: "type' (ClientMetadata_fromRequest anonymous_browser) \<noteq>
      type' (ClientMetadata_fromRequest anonymous_go)"
    by (simp add: ClientMetadata_fromRequest_def ClientMetadata_from_def getClientType_def
        truthy_def anonymous_browser_def anonymous_go_def)
  from anonymous_open_after_open [OF h, where ?s2.0 = server_B and ?s1.0 = server_A
      and m = new_WebsocketConnectionManager and inst = unlimited]
    h t
  show ?thesis by (simp add: createRateLimiter_def)
qed

lemma fromRequest_browser: "ClientMetadata_fromRequest anonymous_browser = browser_metadata"
  by (simp add: ClientMetadata_fromRequest_def ClientMetadata_from_def getClientType_def
      truthy_def anonymous_browser_def browser_metadata_def)

lemma id_browser: "id' browser_metadata = ''anonymous''"
  by (simp add: browser_metadata_def)

lemma id_go: "id' (ClientMetadata_fromRequest anonymous_go) = ''anonymous''"
  by (simp add: fromRequest_anonymous anonymous_go_def)

lemma anon_open_A:
  "createProxyTarget anonymous_browser server_A new_WebsocketConnectionManager =
     (callback 0 server_A, anon_after_open_A)"
  by (simp add: createProxyTarget_def getOrCreateClientContext_def fromRequest_browser id_browser
      emit_def addEndpoint_def new_WebsocketClientContext_def callback_def Let_def
      new_WebsocketConnectionManager_def anon_after_open_A_def)

lemma anon_open_B:
  "createProxyTarget anonymous_go server_B anon_after_open_A =
     (callback 0 server_B, anon_after_open_B)"
  by (simp add: createProxyTarget_def getOrCreateClientContext_def id_go
      emit_def addEndpoint_def callback_def Let_def anon_after_open_A_def anon_after_open_B_def)

lemma anon_close_A:
  "onDidCloseConnection (callback 0 server_A) anon_after_open_B = anon_after_close_A"
  by (simp add: onDidCloseConnection_def callback_def anon_after_open_B_def anon_after_close_A_def
      emit_def removeEndpoint_def splice_def hasNoEndpointsLeft_def clientId_def id_browser
      server_A_def server_B_def Let_def)

lemma anon_open_C:
  "createProxyTarget anonymous_browser server_C anon_after_close_A =
     (callback 1 server_C, anon_after_open_C)"
  by (simp add: createProxyTarget_def getOrCreateClientContext_def fromRequest_browser id_browser
      emit_def addEndpoint_def new_WebsocketClientContext_def callback_def Let_def
      anon_after_close_A_def anon_after_open_C_def)

text \<open>
  Claim C10, on the code. An anonymous browser opens A, an anonymous Go client opens
  B, A closes and an anonymous browser opens C. A and B share the context object 0.
  Closing A removes A and B from it (\<open>splice(index)\<close> removes every element from
  \<open>index\<close> on) and deletes the entry "anonymous" from the registry, so C gets the new
  context object 1: the open connections B and C, both anonymous, do not share one
  context, and B is an endpoint of no context. The rate limiters of the three
  connections still have the one key "anonymous".
\<close>

theorem anonymous_connections_split_after_close:
  "(let (cbA, m1) = createProxyTarget anonymous_browser server_A new_WebsocketConnectionManager;
        (cbB, m2) = createProxyTarget anonymous_go server_B m1;
        m3 = onDidCloseConnection cbA m2;
        (cbC, m4) = createProxyTarget anonymous_browser server_C m3
    in cb_clientContext cbA = 0
       \<and> cb_clientContext cbB = 0
       \<and> contexts m3 ''anonymous'' = None
       \<and> cb_clientContext cbC = 1
       \<and> contexts m4 ''anonymous'' = Some 1
       \<and> servers (objects m4 ! 0) = []
       \<and> servers (objects m4 ! 1) = [server_C])
   \<and> user (createRateLimiter unlimited (id' (ClientMetadata_fromRequest anonymous_browser))) =
       ''anonymous''
   \<and> user (createRateLimiter unlimited (id' (ClientMetadata_fromRequest anonymous_go))) =
       ''anonymous''"
  by (simp add: anon_open_A anon_open_B anon_close_A anon_open_C)
    (simp add: anon_after_close_A_def anon_after_open_C_def callback_def createRateLimiter_def
      fromRequest_browser id_browser id_go)

section \<open>The pipeline: effects and outcome of a call\<close>

lemma String_of_nonempty: "String_of n \<noteq> []"
  by (subst String_of.simps) simp

lemma Retry_After_string: "Retry_After ms = JSString (String_of (Math_round_div_1000 ms))"
  by (simp add: Retry_After_def String_of_nonempty)

lemma rate_limiting_passes:
  "consume rl method = None \<Longrightarrow>
     rate_limiting ec rl u method = ([rateLimiter_consume method], None)"
  by (simp add: rate_limiting_def)

lemma rate_limiting_stops:
  "consume rl method = Some rej \<Longrightarrow>
     snd (rate_limiting ec rl u method) \<noteq> None
     \<and> filter is_canAccess (fst (rate_limiting ec rl u method)) = []
     \<and> filter is_target_call (fst (rate_limiting ec rl u method)) = []"
  by (simp add: rate_limiting_def)

lemma rate_limiting_inner:
  "filter (span_event method) (fst (rate_limiting ec rl u method)) = []"
  by (cases "consume rl method") (simp_all add: rate_limiting_def span_event_def)

lemma try_block_effects:
  "fst (try_block ec g rl md tgt method args) =
     [traceClientMetadata md, TraceContext_setOWI (userId md) (sessionId md),
      TraceContext_setJsonRPCMetadata method] @ fst (rate_limiting ec rl (userId md) method) @
     (case snd (rate_limiting ec rl (userId md) method) of
        Some e \<Rightarrow> []
      | None \<Rightarrow> if \<not> canAccess g method then [accessGuard_canAccess method False]
                else (case tgt method args of
                        Inl e \<Rightarrow> [accessGuard_canAccess method True, target_call method args]
                      | Inr r \<Rightarrow> [accessGuard_canAccess method True, target_call method args,
                                  increaseApiCallCounter method 200]))"
  by (cases "rate_limiting ec rl (userId md) method")
    (simp add: try_block_def Let_def split: option.splits sum.splits)

lemma try_block_outcome:
  "snd (try_block ec g rl md tgt method args) =
     (case snd (rate_limiting ec rl (userId md) method) of
        Some e \<Rightarrow> Inl e
      | None \<Rightarrow> if \<not> canAccess g method
                then Inl (Thrown_ResponseError
                     \<lparr> code = PERMISSION_DENIED ec,
                       message = ''Request '' @ method @ '' is not allowed'',
                       data = JSUndefined \<rparr>)
                else tgt method args)"
  by (cases "rate_limiting ec rl (userId md) method")
    (simp add: try_block_def Let_def split: option.splits sum.splits)

lemma try_block_inner:
  "filter (span_event method) (fst (try_block ec g rl md tgt method args)) = []"
  by (simp add: try_block_effects rate_limiting_inner split: option.splits sum.splits)
    (simp add: span_event_def)

lemma catch_block_inner: "filter (span_event method) (fst (catch_block method e)) = []"
  by (cases e) (simp_all add: catch_block_def span_event_def)

lemma catch_block_calls:
  "filter is_target_call (fst (catch_block method e)) = []
   \<and> filter is_canAccess (fst (catch_block method e)) = []"
  by (cases e) (simp_all add: catch_block_def)

lemma catch_block_rethrows: "snd (catch_block method e) = e"
  by (cases e) (simp_all add: catch_block_def)

lemma onRequest_effects:
  "fst (onRequest ec g rl md tgt method args) =
     (if \<not> prefix ''session-'' (user rl)
      then [increaseApiCallUserCounter method (user rl)]
      else [increaseApiCallUserCounter method ''anonymous'']) @
     [TraceContext_childContext method] @ fst (try_block ec g rl md tgt method args) @
     (case snd (try_block ec g rl md tgt method args) of
        Inr r \<Rightarrow> [] | Inl e \<Rightarrow> fst (catch_block method e)) @ [span_finish]"
  by (cases "try_block ec g rl md tgt method args")
    (simp add: onRequest_def Let_def split: sum.splits prod.splits)

lemma onRequest_outcome:
  "snd (onRequest ec g rl md tgt method args) = snd (try_block ec g rl md tgt method args)"
proof (cases "try_block ec g rl md tgt method args")
  case (Pair effs outcome)
  show ?thesis
  proof (cases outcome)
    case (Inl e)
    with Pair catch_block_rethrows [of "method" "e"] show ?thesis
      by (cases "catch_block method e") (simp add: onRequest_def Let_def)
  next
    case (Inr r)
    with Pair show ?thesis by (simp add: onRequest_def Let_def)
  qed
qed

lemma onRequest_rejected:
  assumes "consume rl method = Some rej" and "\<not> instanceof_Error rej"
  shows "onRequest ec g rl md tgt method args =
     ((if \<not> prefix ''session-'' (user rl)
       then [increaseApiCallUserCounter method (user rl)]
       else [increaseApiCallUserCounter method ''anonymous'']) @
      [TraceContext_childContext method, traceClientMetadata md,
       TraceContext_setOWI (userId md) (sessionId md),
       TraceContext_setJsonRPCMetadata method,
       rateLimiter_consume method,
       log_warn ''Rate limiter prevents accessing method due to too many requests.'' rej,
       increaseApiCallCounter method (TOO_MANY_REQUESTS ec),
       TraceContext_setJsonRPCError method
         \<lparr> code = TOO_MANY_REQUESTS ec, message = ''too many requests'',
           data = JSObject [(''Retry-After'', Retry_After (thrown_msBeforeNext rej))] \<rparr>,
       log_info method
         \<lparr> code = TOO_MANY_REQUESTS ec, message = ''too many requests'',
           data = JSObject [(''Retry-After'', Retry_After (thrown_msBeforeNext rej))] \<rparr>,
       span_finish],
      Inl (Thrown_ResponseError
         \<lparr> code = TOO_MANY_REQUESTS ec, message = ''too many requests'',
           data = JSObject [(''Retry-After'', Retry_After (thrown_msBeforeNext rej))] \<rparr>))"
  using assms by (simp add: onRequest_def try_block_def rate_limiting_def catch_block_def)

lemma denied_no_dispatch:
  assumes "\<not> canAccess g method"
  shows "filter is_target_call (fst (onRequest ec g rl md tgt method args)) = []"
proof (cases "consume rl method")
  case None
  with assms show ?thesis
    by (simp add: onRequest_effects try_block_effects try_block_outcome rate_limiting_passes
        catch_block_calls)
next
  case (Some rej)
  from rate_limiting_stops [OF Some, of ec "userId md"] obtain e where
    "snd (rate_limiting ec rl (userId md) method) = Some e"
    "filter is_target_call (fst (rate_limiting ec rl (userId md) method)) = []"
    by auto
  then show ?thesis
    by (simp add: onRequest_effects try_block_effects try_block_outcome catch_block_calls)
qed

lemma guard_false_logged:
  assumes "accessGuard_canAccess method False \<in> set (fst (onRequest ec g rl md tgt method args))"
  shows "consume rl method = None \<and> \<not> canAccess g method"
proof (cases "consume rl method")
  case None
  with assms show ?thesis
    by (cases "canAccess g method"; cases "tgt method args")
       (auto simp: onRequest_effects try_block_effects try_block_outcome rate_limiting_passes
          catch_block_def split: if_splits thrown.splits)
next
  case (Some rej)
  with assms show ?thesis
    by (cases "instanceof_Error rej"; cases rej)
      (auto simp: onRequest_effects try_block_effects try_block_outcome rate_limiting_def
          catch_block_def split: if_splits thrown.splits)
qed

lemma denied_outcome:
  "consume rl method = None \<Longrightarrow> \<not> canAccess g method \<Longrightarrow>
   snd (onRequest ec g rl md tgt method args) =
     Inl (Thrown_ResponseError \<lparr> code = PERMISSION_DENIED ec,
            message = ''Request '' @ method @ '' is not allowed'', data = JSUndefined \<rparr>)
   \<and> accessGuard_canAccess method False \<in> set (fst (onRequest ec g rl md tgt method args))"
  by (simp add: onRequest_outcome onRequest_effects try_block_effects try_block_outcome
      rate_limiting_passes)

lemma allowed_outcome:
  "consume rl method = None \<Longrightarrow> canAccess g method \<Longrightarrow>
   snd (onRequest ec g rl md tgt method args) = tgt method args
   \<and> filter is_target_call (fst (onRequest ec g rl md tgt method args)) =
       [target_call method args]"
  by (cases "tgt method args")
    (simp_all add: onRequest_outcome onRequest_effects try_block_effects try_block_outcome
      rate_limiting_passes catch_block_calls)

section \<open>Properties of the pipeline\<close>

text \<open>
  Claim C2, on the code. A target whose method throws an \<open>Error\<close> that is not a
  \<open>ResponseError\<close>, called by a client that is neither rate limited nor denied: the
  \<open>catch\<close> clause builds the generic \<open>ResponseError(500, "internal server error")\<close>,
  counts and traces the call with it and logs the cause, and then throws the cause
  itself, so the caller gets the original \<open>Error\<close> with its message. The same holds
  for an \<open>Error\<close> raised by the rate limiter.
\<close>

theorem unexpected_fault_is_rethrown:
  "onRequest codes allow_all (createRateLimiter unlimited ''u1'') u1_metadata faulty_target
       ''getWorkspace'' [] =
     ([increaseApiCallUserCounter ''getWorkspace'' ''u1'',
       TraceContext_childContext ''getWorkspace'',
       traceClientMetadata u1_metadata,
       TraceContext_setOWI (Some ''u1'') None,
       TraceContext_setJsonRPCMetadata ''getWorkspace'',
       rateLimiter_consume ''getWorkspace'',
       accessGuard_canAccess ''getWorkspace'' True,
       target_call ''getWorkspace'' [],
       TraceContext_setError (Thrown_Error ''connect ECONNREFUSED 10.0.0.5:3306''),
       increaseApiCallCounter ''getWorkspace'' 500,
       TraceContext_setJsonRPCError ''getWorkspace''
         \<lparr> code = 500, message = ''internal server error'', data = JSUndefined \<rparr>,
       log_error ''Request getWorkspace failed with internal server error''
         (Thrown_Error ''connect ECONNREFUSED 10.0.0.5:3306''),
       span_finish],
      Inl (Thrown_Error ''connect ECONNREFUSED 10.0.0.5:3306''))
   \<and> snd (onRequest codes allow_all (createRateLimiter broken_limiter ''u1'') u1_metadata
          echo_target ''getWorkspace'' []) =
       Inl (Thrown_Error ''connect ECONNREFUSED 10.0.0.7:6379'')"
  by (simp add: onRequest_def try_block_def rate_limiting_def catch_block_def
      createRateLimiter_def unlimited_def broken_limiter_def allow_all_def faulty_target_def
      u1_metadata_def)

text \<open>
  Claim C3. When the rate limiter rejects a call with a value that is not an \<open>Error\<close>
  (its quota rejection), the call consults neither the access guard nor the target,
  and the caller gets a \<open>ResponseError\<close> with the code \<open>TOO_MANY_REQUESTS\<close> and the
  message "too many requests".
\<close>

theorem rate_limited_skips_dispatch:
  assumes "consume rl method = Some rej" and "\<not> instanceof_Error rej"
  shows "filter is_target_call (fst (onRequest ec g rl md tgt method args)) = []
     \<and> filter is_canAccess (fst (onRequest ec g rl md tgt method args)) = []
     \<and> snd (onRequest ec g rl md tgt method args) =
          Inl (Thrown_ResponseError
            \<lparr> code = TOO_MANY_REQUESTS ec, message = ''too many requests'',
              data = JSObject [(''Retry-After'', Retry_After (thrown_msBeforeNext rej))] \<rparr>)"
  by (simp add: onRequest_rejected [OF assms])

theorem rate_limited_skips_dispatch_witness:
  "consume (createRateLimiter (exhausted 2500) ''u1'') ''getWorkspace'' =
     Some (Thrown_RateLimiterRes \<lparr> msBeforeNext = 2500 \<rparr>)
   \<and> \<not> instanceof_Error (Thrown_RateLimiterRes \<lparr> msBeforeNext = 2500 \<rparr>)
   \<and> filter is_target_call (fst (onRequest codes allow_all
        (createRateLimiter (exhausted 2500) ''u1'') u1_metadata echo_target ''getWorkspace'' [])) = []
   \<and> filter is_canAccess (fst (onRequest codes allow_all
        (createRateLimiter (exhausted 2500) ''u1'') u1_metadata echo_target ''getWorkspace'' [])) = []
   \<and> snd (onRequest codes allow_all
        (createRateLimiter (exhausted 2500) ''u1'') u1_metadata echo_target ''getWorkspace'' []) =
        Inl (Thrown_ResponseError \<lparr> code = 429, message = ''too many requests'',
               data = JSObject [(''Retry-After'', JSString ''3'')] \<rparr>)"
proof -
  have h1: "consume (createRateLimiter (exhausted 2500) ''u1'') ''getWorkspace'' =
      Some (Thrown_RateLimiterRes \<lparr> msBeforeNext = 2500 \<rparr>)"
    by (simp add: createRateLimiter_def exhausted_def)
  have h2: "\<not> instanceof_Error (Thrown_RateLimiterRes \<lparr> msBeforeNext = 2500 \<rparr>)"
    by simp
  have r: "Retry_After 2500 = JSString ''3''"
    by (simp add: Retry_After_def Math_round_div_1000_def String_of.simps)
  from rate_limited_skips_dispatch [OF h1 h2, of codes allow_all u1_metadata echo_target "[]"]
    h1 h2 r
  show ?thesis by (simp add: codes_def)
qed

text \<open>
  Claim C4, on the code. A quota rejection with 400 ms before the next point (and so
  with 0 ms): \<open>Math.round(0.4)\<close> is 0, \<open>String(0)\<close> is the non-empty string "0", which
  is truthy, so \<open>|| 1\<close> does not apply and the hint that the caller gets is the string
  "0", not a positive integer.
\<close>

theorem retry_after_can_be_zero:
  "snd (onRequest codes allow_all (createRateLimiter (exhausted 400) ''u1'') u1_metadata
          echo_target ''getWorkspace'' []) =
     Inl (Thrown_ResponseError \<lparr> code = 429, message = ''too many requests'',
            data = JSObject [(''Retry-After'', JSString ''0'')] \<rparr>)
   \<and> Retry_After 0 = JSString ''0''"
  by (simp add: onRequest_outcome try_block_outcome rate_limiting_def createRateLimiter_def
      exhausted_def codes_def Retry_After_def Math_round_div_1000_def String_of.simps)

text \<open>
  Claim C5. A call whose method the access guard denies never reaches the target. A
  call for which \<open>canAccess(method)\<close> returns false (the call got as far as the guard,
  and the guard said no) gives the caller a \<open>ResponseError\<close> with the code
  \<open>PERMISSION_DENIED\<close> whose message names the method; every call that passes the rate
  limiter and is denied by the guard is such a call. A call that passes the rate
  limiter and the guard and whose target method returns a value gives the caller that
  value itself.
\<close>

theorem authorization_then_dispatch:
  "(\<not> canAccess g method \<longrightarrow>
      filter is_target_call (fst (onRequest ec g rl md tgt method args)) = [])
   \<and> (accessGuard_canAccess method False \<in> set (fst (onRequest ec g rl md tgt method args)) \<longrightarrow>
      snd (onRequest ec g rl md tgt method args) =
        Inl (Thrown_ResponseError \<lparr> code = PERMISSION_DENIED ec,
               message = ''Request '' @ method @ '' is not allowed'', data = JSUndefined \<rparr>))
   \<and> (consume rl method = None \<and> \<not> canAccess g method \<longrightarrow>
      accessGuard_canAccess method False \<in> set (fst (onRequest ec g rl md tgt method args)))
   \<and> (consume rl method = None \<and> canAccess g method \<and> tgt method args = Inr v \<longrightarrow>
      snd (onRequest ec g rl md tgt method args) = Inr v)"
  using denied_no_dispatch [of "g" "method" "ec" "rl" "md" "tgt" "args"]
    guard_false_logged [of "method" "ec" "g" "rl" "md" "tgt" "args"]
    denied_outcome [of "rl" "method" "g" "ec" "md" "tgt" "args"]
    allowed_outcome [of "rl" "method" "g" "ec" "md" "tgt" "args"]
  by auto

theorem authorization_then_dispatch_witness:
  "\<not> canAccess deny_all ''getWorkspace''
   \<and> consume (createRateLimiter unlimited ''u1'') ''getWorkspace'' = None
   \<and> accessGuard_canAccess ''getWorkspace'' False \<in> set (fst (onRequest codes deny_all
        (createRateLimiter unlimited ''u1'') u1_metadata echo_target ''getWorkspace'' []))
   \<and> filter is_target_call (fst (onRequest codes deny_all
        (createRateLimiter unlimited ''u1'') u1_metadata echo_target ''getWorkspace'' [])) = []
   \<and> snd (onRequest codes deny_all
        (createRateLimiter unlimited ''u1'') u1_metadata echo_target ''getWorkspace'' []) =
        Inl (Thrown_ResponseError \<lparr> code = 403,
               message = ''Request getWorkspace is not allowed'', data = JSUndefined \<rparr>)
   \<and> canAccess allow_all ''getWorkspace''
   \<and> echo_target ''getWorkspace'' [] = Inr (JSString ''getWorkspace'')
   \<and> snd (onRequest codes allow_all
        (createRateLimiter unlimited ''u1'') u1_metadata echo_target ''getWorkspace'' []) =
        Inr (JSString ''getWorkspace'')"
proof -
  have h1: "\<not> canAccess deny_all ''getWorkspace''"
    by (simp add: deny_all_def)
  have h2: "consume (createRateLimiter unlimited ''u1'') ''getWorkspace'' = None"
    by (simp add: createRateLimiter_def unlimited_def)
  have h3: "canAccess allow_all ''getWorkspace''"
    by (simp add: allow_all_def)
  have h4: "echo_target ''getWorkspace'' [] = Inr (JSString ''getWorkspace'')"
    by (simp add: echo_target_def)
  from authorization_then_dispatch [of deny_all "''getWorkspace''" codes
      "createRateLimiter unlimited ''u1''" u1_metadata echo_target "[]"]
    authorization_then_dispatch [of allow_all "''getWorkspace''" codes
      "createRateLimiter unlimited ''u1''" u1_metadata echo_target "[]" "JSString ''getWorkspace''"]
    h1 h2 h3 h4
  show ?thesis by (simp add: codes_def)
qed

text \<open>
  Claim C8. Whatever the rate limiter, the access guard and the target do (the call
  returns a value, or throws a \<open>ResponseError\<close> of the pipeline or of the target, or
  throws anything else), the call opens its span once and finishes it once, and
  finishing the span is the last thing the call does.
\<close>

theorem span_finished_on_every_path:
  "last (fst (onRequest ec g rl md tgt method args)) = span_finish
   \<and> filter (span_event method) (fst (onRequest ec g rl md tgt method args)) =
       [TraceContext_childContext method, span_finish]"
  by (simp add: onRequest_effects try_block_inner catch_block_inner split: sum.splits)
    (simp add: span_event_def)

end
